theory Spec2Isabelle
  imports Complex_Main
begin

section \<open>Python values and strings\<close>

text \<open>
  The two notebooks are straight-line Python scripts, one code cell after the other, that
  call the Hugging Face libraries. A run of a notebook (its code cells in the order of
  the file) is modelled as the list of the effectful calls it makes, the values handed to
  those calls being kept as they are written in the source. Keyword arguments are
  association lists in the order of the source. A float literal is the decimal it is
  written as.
\<close>

datatype pyval = PyInt int | PyFloat rat | PyStr string | PyBool bool | PyName string

type_synonym kwargs = "(string \<times> pyval) list"

text \<open>
  A Python \<open>str\<close> is a sequence of code points; \<open>len\<close> counts code points and
  slicing cuts between them. String literals of the source are ASCII and are written as
  Isabelle strings; \<open>str\<close> gives their code points.
\<close>

type_synonym pystr = "nat list"

definition str :: "string \<Rightarrow> pystr" where
  "str s = map of_char s"

text \<open>The characters that \<open>str.isspace\<close> accepts and \<open>str.strip()\<close> removes.\<close>

definition isspace :: "nat \<Rightarrow> bool" where
  "isspace c \<longleftrightarrow>
     (0x09 \<le> c \<and> c \<le> 0x0D) \<or> (0x1C \<le> c \<and> c \<le> 0x20) \<or> c = 0x85 \<or> c = 0xA0 \<or>
     c = 0x1680 \<or> (0x2000 \<le> c \<and> c \<le> 0x200A) \<or> c = 0x2028 \<or> c = 0x2029 \<or>
     c = 0x202F \<or> c = 0x205F \<or> c = 0x3000"

definition strip :: "pystr \<Rightarrow> pystr" where
  "strip s = rev (dropWhile isspace (rev (dropWhile isspace s)))"

text \<open>\<open>str(i)\<close> of a natural number: its decimal digits.\<close>

fun str_nat :: "nat \<Rightarrow> pystr" where
  "str_nat n = (if n < 10 then [0x30 + n] else str_nat (n div 10) @ [0x30 + n mod 10])"

declare str_nat.simps [simp del]

datatype error = IndexError | KeyError

section \<open>Objects of the libraries\<close>

text \<open>
  Models, tokenizers and datasets are objects of the libraries. The notebooks only create
  them and pass them on, so an object is the expression that created it.
\<close>

datatype model =
    AutoModelForCausalLM_from_pretrained string
  | To model string
  | Setup_chat_format_model model tokenizer
  | AutoPeftModelForCausalLM_from_pretrained string kwargs
  | Merge_and_unload model
and tokenizer =
    AutoTokenizer_from_pretrained string
  | Setup_chat_format_tokenizer model tokenizer

datatype dataset = Load_dataset string string | Split dataset string

record wandb_config =
  rank_dimension :: int
  lora_alpha :: int
  lora_dropout :: rat
  learning_rate :: rat
  num_train_epochs :: int

record LoraConfig =
  r :: int
  lora_alpha :: int
  lora_dropout :: rat
  bias :: string
  target_modules :: string
  task_type :: string

text \<open>
  \<open>SFTConfig(output_dir=..., ...)\<close>: the output directory, which the notebooks read
  back as \<open>args.output_dir\<close>, and the other keyword arguments.
\<close>

record SFTConfig =
  output_dir :: string
  options :: kwargs

text \<open>\<open>SFTTrainer(...)\<close>; a keyword argument that the call does not pass is \<open>None\<close>.\<close>

record SFTTrainer =
  model :: model
  args :: SFTConfig
  train_dataset :: dataset
  eval_dataset :: "dataset option"
  peft_config :: "LoraConfig option"
  max_seq_length :: "int option"
  tokenizer :: tokenizer
  packing :: "bool option"
  dataset_kwargs :: "kwargs option"

text \<open>\<open>pipeline(task, model=..., tokenizer=..., device=...)\<close>\<close>

datatype pipeline = Pipeline string model tokenizer string

fun pipeline_tokenizer :: "pipeline \<Rightarrow> tokenizer" where
  "pipeline_tokenizer (Pipeline task m t d) = t"

text \<open>
  \<open>model.generate(**tokenizer(prompt, return_tensors="pt").to(device), max_new_tokens=n)\<close>:
  the model, the tokenizer of the inputs, the prompt, the device and \<open>n\<close>.
\<close>

datatype generation = Generate model tokenizer pystr string nat

text \<open>
  What a run asks of its environment: whether CUDA and MPS are available, the text a
  tokenizer's chat template makes of a list of messages (arguments \<open>tokenize\<close> and
  \<open>add_generation_prompt\<close>), and the list of dictionaries a text-generation pipeline
  returns for a prompt.
\<close>

record lib =
  cuda_is_available :: bool
  mps_is_available :: bool
  apply_chat_template :: "tokenizer \<Rightarrow> (string \<times> pystr) list list \<Rightarrow> bool \<Rightarrow> bool \<Rightarrow> pystr"
  call_pipeline :: "pipeline \<Rightarrow> pystr \<Rightarrow> (string \<times> pystr) list list"

section \<open>Effects of a run\<close>

text \<open>
  What \<open>print\<close> is given: a string literal, a formatted string, or
  \<open>tokenizer.decode(outputs[0], skip_special_tokens=True)\<close> of a generation.
\<close>

datatype printed = Text string | FString pystr | Decoded tokenizer generation

datatype event =
    Import string
  | Pip_install "string list"
  | Login
  | Download_dataset dataset
  | Load_model model
  | Load_tokenizer tokenizer
  | Setup_chat_format model tokenizer
  | Print printed
  | Wandb_init string wandb_config string
  | Create_trainer SFTTrainer
  | Train SFTTrainer
  | Save_model SFTTrainer "string option"
  | Wandb_finish
  | Push_to_hub SFTTrainer "string list"
  | Save_pretrained model string bool string
  | Del string
  | Empty_cache
  | Create_pipeline pipeline
  | Display_HTML string
  | Kernel_do_shutdown bool

text \<open>
  A cell gives the effects it had and the exception that ended it, if any. Running the
  cells in order stops at the first exception. The value that the notebook shows for the
  last expression of a cell is not an event. \<open>trainer.train()\<close> changes the model
  object in place: the object is the same expression before and after, and what has
  happened to it is read off the events before.
\<close>

type_synonym cell = "event list \<times> error option"

fun run_cells :: "cell list \<Rightarrow> cell" where
  "run_cells [] = ([], None)"
| "run_cells ((es, Some e) # cs) = (es, Some e)"
| "run_cells ((es, None) # cs) = (case run_cells cs of (es', x) \<Rightarrow> (es @ es', x))"

section \<open>Code shared by the two notebooks\<close>

text \<open>The two notebooks have the same text for the following assignments.\<close>

definition device :: "lib \<Rightarrow> string" where
  "device l =
     (if cuda_is_available l then ''cuda''
      else if mps_is_available l then ''mps'' else ''cpu'')"

definition model_name :: string where
  "model_name = ''HuggingFaceTB/SmolLM2-135M''"

definition finetune_tags :: "string list" where
  "finetune_tags = [''smol-course'', ''module_1'']"

definition base_model :: "lib \<Rightarrow> model" where
  "base_model l = To (AutoModelForCausalLM_from_pretrained model_name) (device l)"

definition base_tokenizer :: tokenizer where
  "base_tokenizer = AutoTokenizer_from_pretrained model_name"

definition chat_model :: "lib \<Rightarrow> model" where
  "chat_model l = Setup_chat_format_model (base_model l) base_tokenizer"

definition chat_tokenizer :: "lib \<Rightarrow> tokenizer" where
  "chat_tokenizer l = Setup_chat_format_tokenizer (base_model l) base_tokenizer"

definition prompt :: string where
  "prompt = ''Write a haiku about programming''"

definition messages :: "(string \<times> pystr) list list" where
  "messages = [[(''role'', str ''user''), (''content'', str prompt)]]"

definition formatted_prompt :: "lib \<Rightarrow> pystr" where
  "formatted_prompt l = apply_chat_template l (chat_tokenizer l) messages False False"

definition outputs :: "lib \<Rightarrow> generation" where
  "outputs l = Generate (chat_model l) (chat_tokenizer l) (formatted_prompt l) (device l) 100"

definition cell_login :: cell where
  "cell_login = ([Import ''huggingface_hub'', Login], None)"

definition cell_load_model :: "lib \<Rightarrow> cell" where
  "cell_load_model l =
     ([Import ''transformers'', Import ''datasets'', Import ''trl'', Import ''torch'',
       Load_model (base_model l), Load_tokenizer base_tokenizer,
       Setup_chat_format (base_model l) base_tokenizer], None)"

definition cell_before_training :: "lib \<Rightarrow> cell" where
  "cell_before_training l =
     ([Print (Text ''Before training:''), Print (Decoded (chat_tokenizer l) (outputs l))], None)"

definition cell_shutdown :: cell where
  "cell_shutdown =
     ([Import ''IPython.display'', Display_HTML ''<h2>Kernel will shut down...</h2>'',
       Import ''IPython'', Kernel_do_shutdown True], None)"

section \<open>The LoRA notebook\<close>

definition lora_finetune_name :: string where
  "lora_finetune_name = ''SmolLM2-FT-MyDataset''"

definition lora_dataset :: dataset where
  "lora_dataset = Load_dataset ''HuggingFaceTB/smoltalk'' ''everyday-conversations''"

definition lora_cell_dataset :: cell where
  "lora_cell_dataset = ([Import ''datasets'', Download_dataset lora_dataset], None)"

text \<open>The dictionary given to \<open>wandb.init\<close>, which \<open>wandb.config\<close> then holds.\<close>

definition lora_wandb_config :: wandb_config where
  "lora_wandb_config =
     \<lparr>rank_dimension = 16, wandb_config.lora_alpha = 32, wandb_config.lora_dropout = 1 / 10,
      learning_rate = 2 / 10000, num_train_epochs = 3\<rparr>"

text \<open>
  The three variables that the cell assigns after \<open>wandb.init\<close>:
  \<open>rank_dimension = 6\<close>, \<open>lora_alpha = 8\<close>, \<open>lora_dropout = 0.05\<close>. What follows
  the assignments is written for any values of them.
\<close>

record lora_variables =
  var_rank_dimension :: int
  var_lora_alpha :: int
  var_lora_dropout :: rat

definition lora_assigned :: lora_variables where
  "lora_assigned = \<lparr>var_rank_dimension = 6, var_lora_alpha = 8, var_lora_dropout = 5 / 100\<rparr>"

definition lora_peft_config :: "lora_variables \<Rightarrow> LoraConfig" where
  "lora_peft_config v =
     \<lparr>r = rank_dimension lora_wandb_config,
      lora_alpha = wandb_config.lora_alpha lora_wandb_config,
      lora_dropout = wandb_config.lora_dropout lora_wandb_config,
      bias = ''none'', target_modules = ''all-linear'', task_type = ''CAUSAL_LM''\<rparr>"

definition lora_cell_peft :: cell where
  "lora_cell_peft =
     ([Import ''peft'', Import ''wandb'',
       Wandb_init ''smoltalk-lora-tuning'' lora_wandb_config ''offline''], None)"

definition lora_args :: SFTConfig where
  "lora_args =
     \<lparr>output_dir = lora_finetune_name,
      options =
       [(''num_train_epochs'', PyInt 2),
        (''per_device_train_batch_size'', PyInt 2),
        (''gradient_accumulation_steps'', PyInt 2),
        (''gradient_checkpointing'', PyBool True),
        (''optim'', PyStr ''adamw_torch_fused''),
        (''learning_rate'', PyFloat (2 / 10000)),
        (''max_grad_norm'', PyFloat (3 / 10)),
        (''warmup_ratio'', PyFloat (3 / 100)),
        (''lr_scheduler_type'', PyStr ''constant''),
        (''logging_steps'', PyInt 10),
        (''save_strategy'', PyStr ''epoch''),
        (''bf16'', PyBool True),
        (''push_to_hub'', PyBool False),
        (''report_to'', PyStr ''wandb'')]\<rparr>"

definition lora_trainer :: "lib \<Rightarrow> lora_variables \<Rightarrow> SFTTrainer" where
  "lora_trainer l v =
     \<lparr>model = chat_model l, args = lora_args,
      train_dataset = Split lora_dataset ''train'', eval_dataset = None,
      peft_config = Some (lora_peft_config v), max_seq_length = Some 1512,
      tokenizer = chat_tokenizer l, packing = Some True,
      dataset_kwargs =
        Some [(''add_special_tokens'', PyBool False), (''append_concat_token'', PyBool False)]\<rparr>"

definition lora_cell_trainer :: "lib \<Rightarrow> lora_variables \<Rightarrow> cell" where
  "lora_cell_trainer l v = ([Create_trainer (lora_trainer l v)], None)"

definition lora_cell_train :: "lib \<Rightarrow> lora_variables \<Rightarrow> cell" where
  "lora_cell_train l v =
     ([Train (lora_trainer l v), Save_model (lora_trainer l v) None, Wandb_finish], None)"

definition lora_peft_model :: model where
  "lora_peft_model =
     AutoPeftModelForCausalLM_from_pretrained (output_dir lora_args)
       [(''torch_dtype'', PyName ''torch.float16''), (''low_cpu_mem_usage'', PyBool True)]"

definition merged_model :: model where
  "merged_model = Merge_and_unload lora_peft_model"

definition lora_cell_merge :: cell where
  "lora_cell_merge =
     ([Import ''peft'', Load_model lora_peft_model,
       Save_pretrained merged_model (output_dir lora_args) True ''2GB''], None)"

definition lora_cell_free :: cell where
  "lora_cell_free = ([Del ''model'', Del ''trainer'', Empty_cache], None)"

definition lora_adapter_tokenizer :: tokenizer where
  "lora_adapter_tokenizer = AutoTokenizer_from_pretrained lora_finetune_name"

definition lora_adapter_model :: model where
  "lora_adapter_model =
     AutoPeftModelForCausalLM_from_pretrained lora_finetune_name
       [(''device_map'', PyStr ''auto''), (''torch_dtype'', PyName ''torch.float16'')]"

definition pipe :: "lib \<Rightarrow> pipeline" where
  "pipe l = Pipeline ''text-generation'' merged_model lora_adapter_tokenizer (device l)"

definition lora_cell_pipeline :: "lib \<Rightarrow> cell" where
  "lora_cell_pipeline l =
     ([Import ''torch'', Import ''peft'', Import ''transformers'',
       Load_tokenizer lora_adapter_tokenizer, Load_model lora_adapter_model,
       Create_pipeline (pipe l)], None)"

definition prompts :: "string list" where
  "prompts =
     [''What is the capital of Germany? Explain why thats the case and if it was different in the past?'',
      ''Write a Python function to calculate the factorial of a number.'',
      ''A rectangular garden has a length of 25 feet and a width of 15 feet. If you want to build a fence around the entire garden, how many feet of fencing will you need?'',
      ''What is the difference between a fruit and a vegetable? Give examples of each.'',
      ''Write a haiku about programming'']"

text \<open>
  \<open>outputs[0]\<close> raises IndexError on an empty list, \<open>["generated_text"]\<close> raises
  KeyError on a dictionary without that key, and a slice that starts beyond the end is
  the empty string.
\<close>

definition test_inference :: "lib \<Rightarrow> pystr \<Rightarrow> error + pystr" where
  "test_inference l p =
     (let p' = apply_chat_template l (pipeline_tokenizer (pipe l))
                 [[(''role'', str ''user''), (''content'', p)]] False True;
          outs = call_pipeline l (pipe l) p'
      in case outs of
           [] \<Rightarrow> Inl IndexError
         | out # _ \<Rightarrow>
             (case map_of out ''generated_text'' of
                None \<Rightarrow> Inl KeyError
              | Some g \<Rightarrow> Inr (strip (drop (length p') g))))"

definition ESC :: char where
  "ESC = CHR 0x1B"

definition NL :: char where
  "NL = CHR 0x0A"

text \<open>One turn of the loop \<open>for i, prompt in enumerate(prompts, 1)\<close>.\<close>

definition loop_body :: "lib \<Rightarrow> nat \<times> string \<Rightarrow> cell" where
  "loop_body l ip =
     (case ip of (i, p) \<Rightarrow>
        (let head =
               [Print (FString (str (NL # ESC # ''[1mPrompt #'') @ str_nat i @
                                str (CHR '':'' # ESC # ''[0m''))),
                Print (FString (str (ESC # ''[94m'') @ str p @ str (ESC # ''[0m''))),
                Print (Text (NL # ESC # ''[1mResponse:'' @ ESC # ''[0m''))]
         in case test_inference l (str p) of
              Inl e \<Rightarrow> (head, Some e)
            | Inr response \<Rightarrow>
                (head @
                 [Print (FString (str (ESC # ''[92m'') @ response @ str (ESC # ''[0m''))),
                  Print (Text (NL # replicate 80 (CHR ''='')))], None)))"

definition lora_cell_inference :: "lib \<Rightarrow> cell" where
  "lora_cell_inference l = run_cells (map (loop_body l) (enumerate 1 prompts))"

definition lora_notebook_with :: "lib \<Rightarrow> lora_variables \<Rightarrow> cell" where
  "lora_notebook_with l v =
     run_cells
       [cell_login, lora_cell_dataset, cell_load_model l, cell_before_training l,
        lora_cell_peft, lora_cell_trainer l v, lora_cell_train l v, lora_cell_merge,
        lora_cell_free, lora_cell_pipeline l, lora_cell_inference l, cell_shutdown]"

definition lora_notebook :: "lib \<Rightarrow> cell" where
  "lora_notebook l = lora_notebook_with l lora_assigned"

section \<open>The SFT notebook \<open>sft_finetuning_example_turtle\<close>\<close>

definition turtle_finetune_name :: string where
  "turtle_finetune_name = ''SmolLM2-FT-Smoltalk''"

definition ds :: dataset where
  "ds = Load_dataset ''HuggingFaceTB/smoltalk'' ''everyday-conversations''"

definition turtle_cell_dataset :: cell where
  "turtle_cell_dataset = ([Import ''datasets'', Download_dataset ds], None)"

definition sft_config :: "lib \<Rightarrow> SFTConfig" where
  "sft_config l =
     \<lparr>output_dir = ''./sft_output'',
      options =
       [(''max_steps'', PyInt 1000),
        (''per_device_train_batch_size'', PyInt 4),
        (''learning_rate'', PyFloat (5 / 100000)),
        (''logging_steps'', PyInt 10),
        (''save_steps'', PyInt 100),
        (''eval_steps'', PyInt 50),
        (''use_mps_device'', PyBool (if device l = ''mps'' then True else False)),
        (''hub_model_id'', PyStr turtle_finetune_name)]\<rparr>"

definition turtle_trainer :: "lib \<Rightarrow> SFTTrainer" where
  "turtle_trainer l =
     \<lparr>model = chat_model l, args = sft_config l,
      train_dataset = Split ds ''train'', eval_dataset = Some (Split ds ''test''),
      peft_config = None, max_seq_length = None,
      tokenizer = chat_tokenizer l, packing = None, dataset_kwargs = None\<rparr>"

definition turtle_cell_trainer :: "lib \<Rightarrow> cell" where
  "turtle_cell_trainer l = ([Create_trainer (turtle_trainer l)], None)"

definition turtle_cell_train :: "lib \<Rightarrow> cell" where
  "turtle_cell_train l =
     ([Train (turtle_trainer l),
       Save_model (turtle_trainer l) (Some (''./'' @ turtle_finetune_name))], None)"

definition turtle_cell_push :: "lib \<Rightarrow> cell" where
  "turtle_cell_push l = ([Push_to_hub (turtle_trainer l) finetune_tags], None)"

definition turtle_cell_after_training :: "lib \<Rightarrow> cell" where
  "turtle_cell_after_training l =
     ([Print (Text ''After training:''), Print (Decoded (chat_tokenizer l) (outputs l))], None)"

text \<open>The cell between the dataset and the trainer holds a comment only.\<close>

definition turtle_notebook :: "lib \<Rightarrow> cell" where
  "turtle_notebook l =
     run_cells
       [cell_login, cell_load_model l, cell_before_training l, turtle_cell_dataset,
        ([], None), turtle_cell_trainer l, turtle_cell_train l, turtle_cell_push l,
        turtle_cell_after_training l, cell_shutdown]"

section \<open>Properties of a run\<close>

fun is_train :: "event \<Rightarrow> bool" where
  "is_train (Train t) = True"
| "is_train _ = False"

fun is_create_trainer :: "event \<Rightarrow> bool" where
  "is_create_trainer (Create_trainer t) = True"
| "is_create_trainer _ = False"

fun is_pip_install :: "event \<Rightarrow> bool" where
  "is_pip_install (Pip_install pkgs) = True"
| "is_pip_install _ = False"



fun is_save_pretrained :: "event \<Rightarrow> bool" where
  "is_save_pretrained (Save_pretrained m d safe shard) = True"
| "is_save_pretrained _ = False"

fun is_print :: "event \<Rightarrow> bool" where
  "is_print (Print x) = True"
| "is_print _ = False"

text \<open>The events of a run before its first call of \<open>trainer.train()\<close>, and those after it.\<close>

definition before_training :: "event list \<Rightarrow> event list" where
  "before_training es = takeWhile (Not \<circ> is_train) es"

definition after_training :: "event list \<Rightarrow> event list" where
  "after_training es = drop 1 (dropWhile (Not \<circ> is_train) es)"

text \<open>A print of the label \<open>lab\<close> directly followed by the print of \<open>x\<close>.\<close>

definition labelled_print :: "string \<Rightarrow> printed \<Rightarrow> event list \<Rightarrow> bool" where
  "labelled_print lab x es =
     list_ex (\<lambda>(a, b). a = Print (Text lab) \<and> b = Print x) (zip es (tl es))"

text \<open>The print of a response of \<open>test_inference\<close> in the loop of the LoRA notebook.\<close>

definition print_response :: "pystr \<Rightarrow> event" where
  "print_response response =
     Print (FString (str (ESC # ''[92m'') @ response @ str (ESC # ''[0m'')))"

definition created_trainers :: "event list \<Rightarrow> SFTTrainer list" where
  "created_trainers es = concat (map (\<lambda>e. case e of Create_trainer t \<Rightarrow> [t] | _ \<Rightarrow> []) es)"

definition has_peft_config :: "SFTTrainer \<Rightarrow> bool" where
  "has_peft_config t \<longleftrightarrow> peft_config t \<noteq> None"

definition required_dependencies :: "string list" where
  "required_dependencies = [''transformers'', ''datasets'', ''trl'', ''huggingface_hub'']"

text \<open>
  Every import of a required dependency comes after an installation of it;
  \<open>inst\<close> are the packages installed so far.
\<close>

fun installed_before_import :: "string list \<Rightarrow> event list \<Rightarrow> bool" where
  "installed_before_import inst [] = True"
| "installed_before_import inst (Pip_install pkgs # es) = installed_before_import (pkgs @ inst) es"
| "installed_before_import inst (Import m # es) =
     ((m \<in> set required_dependencies \<longrightarrow> m \<in> set inst) \<and> installed_before_import inst es)"
| "installed_before_import inst (e # es) = installed_before_import inst es"




section \<open>An environment to run the notebooks in\<close>

text \<open>
  The ChatML template that \<open>setup_chat_format\<close> installs: every message becomes
  \<open><|im_start|>role\<newline>content<|im_end|>\<newline>\<close>, and the generation prompt is
  \<open><|im_start|>assistant\<newline>\<close>.
\<close>

definition chatml_message :: "(string \<times> pystr) list \<Rightarrow> pystr" where
  "chatml_message m =
     str ''<|im_start|>'' @ (case map_of m ''role'' of Some x \<Rightarrow> x | None \<Rightarrow> []) @ str [NL] @
     (case map_of m ''content'' of Some x \<Rightarrow> x | None \<Rightarrow> []) @ str ''<|im_end|>'' @ str [NL]"

definition chatml :: "(string \<times> pystr) list list \<Rightarrow> bool \<Rightarrow> pystr" where
  "chatml ms add_generation_prompt =
     concat (map chatml_message ms) @
     (if add_generation_prompt then str ''<|im_start|>assistant'' @ str [NL] else [])"

text \<open>
  A machine with MPS and without CUDA, whose pipeline returns one dictionary: the prompt
  followed by a short continuation.
\<close>

definition example_lib :: lib where
  "example_lib =
     \<lparr>cuda_is_available = False, mps_is_available = True,
      apply_chat_template = (\<lambda>t ms tokenize add_generation_prompt. chatml ms add_generation_prompt),
      call_pipeline = (\<lambda>p text. [[(''generated_text'', text @ str ('' Code flows'' @ [NL]))]])\<rparr>"

section \<open>The events of the two runs\<close>

text \<open>The LoRA notebook up to the cell that builds the pipeline.\<close>

definition lora_setup :: "lib \<Rightarrow> lora_variables \<Rightarrow> event list" where
  "lora_setup l v =
     fst (run_cells
       [cell_login, lora_cell_dataset, cell_load_model l, cell_before_training l,
        lora_cell_peft, lora_cell_trainer l v, lora_cell_train l v, lora_cell_merge,
        lora_cell_free, lora_cell_pipeline l])"

lemma run_cells_Cons:
  "run_cells (c # cs) =
     (case snd c of
        Some e \<Rightarrow> (fst c, Some e)
      | None \<Rightarrow> (fst c @ fst (run_cells cs), snd (run_cells cs)))"
  by (cases c; cases "snd c") (auto split: prod.splits)

lemma run_cells_ok [simp]:
  "run_cells ((es, None) # cs) = (es @ fst (run_cells cs), snd (run_cells cs))"
  by (simp split: prod.splits)

lemma loop_body_prints: "list_all is_print (fst (loop_body l ip))"
  by (cases ip) (simp add: loop_body_def Let_def split: sum.splits)

lemma run_cells_all:
  "list_all (\<lambda>c. list_all P (fst c)) cs \<Longrightarrow> list_all P (fst (run_cells cs))"
proof (induction cs)
  case Nil
  then show ?case by simp
next
  case (Cons c cs)
  then show ?case by (cases c; cases "snd c") (auto simp: run_cells_Cons)
qed

lemma inference_prints: "list_all is_print (fst (lora_cell_inference l))"
  unfolding lora_cell_inference_def
proof (rule run_cells_all)
  show "list_all (\<lambda>c. list_all is_print (fst c)) (map (loop_body l) (enumerate 1 prompts))"
    using loop_body_prints by (simp add: list_all_iff)
qed

lemmas cell_defs =
  cell_login_def lora_cell_dataset_def cell_load_model_def cell_before_training_def
  lora_cell_peft_def lora_cell_trainer_def lora_cell_train_def lora_cell_merge_def
  lora_cell_free_def lora_cell_pipeline_def cell_shutdown_def
  turtle_cell_dataset_def turtle_cell_trainer_def turtle_cell_train_def turtle_cell_push_def
  turtle_cell_after_training_def

lemma lora_events:
  "fst (lora_notebook_with l v) =
     lora_setup l v @ fst (lora_cell_inference l) @
     (if snd (lora_cell_inference l) = None then fst cell_shutdown else [])"
  unfolding lora_notebook_with_def lora_setup_def
  by (cases "lora_cell_inference l"; cases "snd (lora_cell_inference l)")
     (simp_all add: cell_defs)


lemma lora_setup_events:
  "lora_setup l v =
     [Import ''huggingface_hub'', Login, Import ''datasets'', Download_dataset lora_dataset,
      Import ''transformers'', Import ''datasets'', Import ''trl'', Import ''torch'',
      Load_model (base_model l), Load_tokenizer base_tokenizer,
      Setup_chat_format (base_model l) base_tokenizer,
      Print (Text ''Before training:''), Print (Decoded (chat_tokenizer l) (outputs l)),
      Import ''peft'', Import ''wandb'',
      Wandb_init ''smoltalk-lora-tuning'' lora_wandb_config ''offline'',
      Create_trainer (lora_trainer l v),
      Train (lora_trainer l v), Save_model (lora_trainer l v) None, Wandb_finish,
      Import ''peft'', Load_model lora_peft_model,
      Save_pretrained merged_model (output_dir lora_args) True ''2GB'',
      Del ''model'', Del ''trainer'', Empty_cache,
      Import ''torch'', Import ''peft'', Import ''transformers'',
      Load_tokenizer lora_adapter_tokenizer, Load_model lora_adapter_model,
      Create_pipeline (pipe l)]"
  by (simp add: lora_setup_def cell_defs)

lemma turtle_events:
  "turtle_notebook l =
     ([Import ''huggingface_hub'', Login,
       Import ''transformers'', Import ''datasets'', Import ''trl'', Import ''torch'',
       Load_model (base_model l), Load_tokenizer base_tokenizer,
       Setup_chat_format (base_model l) base_tokenizer,
       Print (Text ''Before training:''), Print (Decoded (chat_tokenizer l) (outputs l)),
       Import ''datasets'', Download_dataset ds,
       Create_trainer (turtle_trainer l),
       Train (turtle_trainer l),
       Save_model (turtle_trainer l) (Some (''./'' @ turtle_finetune_name)),
       Push_to_hub (turtle_trainer l) finetune_tags,
       Print (Text ''After training:''), Print (Decoded (chat_tokenizer l) (outputs l)),
       Import ''IPython.display'', Display_HTML ''<h2>Kernel will shut down...</h2>'',
       Import ''IPython'', Kernel_do_shutdown True], None)"
  by (simp add: turtle_notebook_def cell_defs)

lemma filter_prints:
  assumes "list_all is_print es" and "\<And>x. \<not> P (Print x)"
  shows "filter P es = []"
proof -
  have "\<not> P e" if "e \<in> set es" for e
  proof -
    from assms(1) that have "is_print e" by (simp add: list_all_iff)
    then show ?thesis using assms(2) by (cases e) simp_all
  qed
  then show ?thesis by (simp add: filter_empty_conv)
qed

lemma created_trainers_append:
  "created_trainers (xs @ ys) = created_trainers xs @ created_trainers ys"
  by (simp add: created_trainers_def)

lemma created_trainers_prints: "list_all is_print es \<Longrightarrow> created_trainers es = []"
  by (induction es) (auto simp: created_trainers_def split: event.splits)

lemma before_training_lora:
  "before_training (fst (lora_notebook_with l v)) =
     [Import ''huggingface_hub'', Login, Import ''datasets'', Download_dataset lora_dataset,
      Import ''transformers'', Import ''datasets'', Import ''trl'', Import ''torch'',
      Load_model (base_model l), Load_tokenizer base_tokenizer,
      Setup_chat_format (base_model l) base_tokenizer,
      Print (Text ''Before training:''), Print (Decoded (chat_tokenizer l) (outputs l)),
      Import ''peft'', Import ''wandb'',
      Wandb_init ''smoltalk-lora-tuning'' lora_wandb_config ''offline'',
      Create_trainer (lora_trainer l v)]"
  by (simp add: before_training_def lora_events lora_setup_events)

lemma after_training_lora:
  "after_training (fst (lora_notebook_with l v)) =
     [Save_model (lora_trainer l v) None, Wandb_finish,
      Import ''peft'', Load_model lora_peft_model,
      Save_pretrained merged_model (output_dir lora_args) True ''2GB'',
      Del ''model'', Del ''trainer'', Empty_cache,
      Import ''torch'', Import ''peft'', Import ''transformers'',
      Load_tokenizer lora_adapter_tokenizer, Load_model lora_adapter_model,
      Create_pipeline (pipe l)] @ fst (lora_cell_inference l) @
     (if snd (lora_cell_inference l) = None then fst cell_shutdown else [])"
  by (simp add: after_training_def lora_events lora_setup_events)

lemma first_response:
  assumes "test_inference l (str (hd prompts)) = Inr response"
  shows "print_response response \<in> set (fst (lora_cell_inference l))"
proof -
  have p: "enumerate 1 prompts = (1, hd prompts) # enumerate 2 (tl prompts)"
    by (simp add: prompts_def)
  have "print_response response \<in> set (fst (loop_body l (1, hd prompts)))"
    and "snd (loop_body l (1, hd prompts)) = None"
    using assms by (simp_all add: loop_body_def print_response_def Let_def)
  then show ?thesis
    unfolding lora_cell_inference_def p
    by (cases "loop_body l (1, hd prompts)") (simp add: run_cells_Cons)
qed

lemma lora_filter:
  assumes "\<And>x. \<not> P (Print x)"
  shows "filter P (fst (lora_notebook_with l v)) =
           filter P (lora_setup l v) @
           (if snd (lora_cell_inference l) = None then filter P (fst cell_shutdown) else [])"
proof -
  have "filter P (fst (lora_cell_inference l)) = []"
    by (rule filter_prints [OF inference_prints]) (rule assms)
  then show ?thesis by (simp add: lora_events)
qed

lemma created_trainers_lora:
  "created_trainers (fst (lora_notebook_with l v)) = [lora_trainer l v]"
proof -
  have "created_trainers (lora_setup l v) = [lora_trainer l v]"
    by (simp add: created_trainers_def lora_setup_events)
  moreover have "created_trainers (fst cell_shutdown) = []"
    by (simp add: created_trainers_def cell_shutdown_def)
  moreover have "created_trainers [] = []"
    by (simp add: created_trainers_def)
  ultimately show ?thesis
    unfolding lora_events created_trainers_append
    by (simp add: created_trainers_prints [OF inference_prints])
qed

lemma created_trainers_turtle: "created_trainers (fst (turtle_notebook l)) = [turtle_trainer l]"
  by (simp add: turtle_events created_trainers_def)

lemma train_once_lora:
  "filter is_train (fst (lora_notebook l)) = [Train (lora_trainer l lora_assigned)]"
  by (simp add: lora_notebook_def lora_filter lora_setup_events cell_shutdown_def)

lemma train_once_turtle:
  "filter is_train (fst (turtle_notebook l)) = [Train (turtle_trainer l)]"
  by (simp add: turtle_events)




text \<open>What \<open>strip\<close> returns neither starts nor ends with white space.\<close>

lemma last_dropWhile: "dropWhile P xs \<noteq> [] \<Longrightarrow> last (dropWhile P xs) = last xs"
  by (induction xs) (auto split: if_splits)

lemma strip_no_space:
  assumes "strip s \<noteq> []"
  shows "\<not> isspace (hd (strip s)) \<and> \<not> isspace (last (strip s))"
proof -
  let ?a = "dropWhile isspace s"
  let ?b = "dropWhile isspace (rev ?a)"
  from assms have b: "?b \<noteq> []" by (simp add: strip_def)
  have a: "?a \<noteq> []"
  proof
    assume "?a = []"
    then have "?b = []" by (simp only: rev.simps dropWhile.simps)
    with b show False ..
  qed
  from b have "\<not> isspace (hd ?b)" by (rule hd_dropWhile)
  then have l: "\<not> isspace (last (strip s))" using b by (simp add: strip_def last_rev)
  from a have "\<not> isspace (hd ?a)" by (rule hd_dropWhile)
  moreover have "hd (strip s) = hd ?a"
    using a b last_dropWhile [OF b] by (simp add: strip_def hd_rev last_rev)
  ultimately show ?thesis using l by simp
qed

lemma response_printed:
  assumes "call_pipeline l (pipe l)
             (apply_chat_template l (pipeline_tokenizer (pipe l))
                [[(''role'', str ''user''), (''content'', str (hd prompts))]] False True) = out # others"
    and "map_of out ''generated_text'' = Some g"
  shows "Print (FString (str (ESC # ''[92m'') @
            strip (drop (length (apply_chat_template l (pipeline_tokenizer (pipe l))
                [[(''role'', str ''user''), (''content'', str (hd prompts))]] False True)) g) @
            str (ESC # ''[0m'')))
         \<in> set (after_training (fst (lora_notebook l)))"
proof -
  have "test_inference l (str (hd prompts)) =
      Inr (strip (drop (length (apply_chat_template l (pipeline_tokenizer (pipe l))
                [[(''role'', str ''user''), (''content'', str (hd prompts))]] False True)) g))"
    using assms by (simp add: test_inference_def Let_def)
  from first_response [OF this] show ?thesis
    by (simp add: lora_notebook_def after_training_lora print_response_def)
qed




section \<open>The device\<close>

text \<open>
  C9. The device is \<open>"cuda"\<close> when CUDA is available, otherwise \<open>"mps"\<close> when MPS is
  available, otherwise \<open>"cpu"\<close>; so it is \<open>"mps"\<close> exactly when MPS is available and
  CUDA is not. The \<open>SFTConfig\<close> of the trainer that the SFT notebook creates has
  \<open>use_mps_device\<close> set to whether the device is \<open>"mps"\<close>.
\<close>

theorem device_precedence:
  "device l =
     (if cuda_is_available l then ''cuda''
      else if mps_is_available l then ''mps'' else ''cpu'')
   \<and> (device l = ''mps'') = (mps_is_available l \<and> \<not> cuda_is_available l)
   \<and> created_trainers (fst (turtle_notebook l)) = [turtle_trainer l]
   \<and> map_of (options (args (turtle_trainer l))) ''use_mps_device''
       = Some (PyBool (device l = ''mps''))"
  by (simp add: device_def turtle_events created_trainers_def turtle_trainer_def sft_config_def)

theorem device_precedence_witness:
  "device example_lib = ''mps''
   \<and> map_of (options (args (turtle_trainer example_lib))) ''use_mps_device''
       = Some (PyBool True)
   \<and> device (example_lib\<lparr>cuda_is_available := True\<rparr>) = ''cuda''
   \<and> map_of (options (args (turtle_trainer (example_lib\<lparr>cuda_is_available := True\<rparr>))))
         ''use_mps_device'' = Some (PyBool False)
   \<and> device (example_lib\<lparr>mps_is_available := False\<rparr>) = ''cpu''"
  using device_precedence [of example_lib]
    device_precedence [of "example_lib\<lparr>cuda_is_available := True\<rparr>"]
    device_precedence [of "example_lib\<lparr>mps_is_available := False\<rparr>"]
  by (simp add: example_lib_def)

section \<open>Samples before and after training\<close>

text \<open>
  C3. In both notebooks the label \<open>Before training:\<close> and, directly after it, the decoded
  generation of the base model (\<open>HuggingFaceTB/SmolLM2-135M\<close> as loaded from the hub,
  moved to the device and set up for the chat format) for the prompt
  \<open>Write a haiku about programming\<close> are printed before the first call of
  \<open>trainer.train()\<close>, which trains that model. A generation is printed after that call.
  In the SFT notebook it is the decoded generation of the trained model under the label
  \<open>After training:\<close>. In the LoRA notebook it is what the text-generation pipeline of the
  merged model generated for the first prompt, cut and stripped by \<open>test_inference\<close>,
  when the pipeline returned a generated text for that prompt.
\<close>

theorem samples_before_and_after_training:
  assumes "call_pipeline l (pipe l)
             (apply_chat_template l (pipeline_tokenizer (pipe l))
                [[(''role'', str ''user''), (''content'', str (hd prompts))]] False True) = out # others"
    and "map_of out ''generated_text'' = Some g"
  shows
   "chat_model l =
      Setup_chat_format_model
        (To (AutoModelForCausalLM_from_pretrained ''HuggingFaceTB/SmolLM2-135M'') (device l))
        (AutoTokenizer_from_pretrained ''HuggingFaceTB/SmolLM2-135M'')
    \<and> chat_tokenizer l =
      Setup_chat_format_tokenizer
        (To (AutoModelForCausalLM_from_pretrained ''HuggingFaceTB/SmolLM2-135M'') (device l))
        (AutoTokenizer_from_pretrained ''HuggingFaceTB/SmolLM2-135M'')
    \<and> outputs l =
      Generate (chat_model l) (chat_tokenizer l)
        (apply_chat_template l (chat_tokenizer l)
           [[(''role'', str ''user''), (''content'', str ''Write a haiku about programming'')]]
           False False)
        (device l) 100
    \<and> labelled_print ''Before training:'' (Decoded (chat_tokenizer l) (outputs l))
        (before_training (fst (lora_notebook l)))
    \<and> filter is_train (fst (lora_notebook l)) = [Train (lora_trainer l lora_assigned)]
    \<and> model (lora_trainer l lora_assigned) = chat_model l
    \<and> pipe l =
        Pipeline ''text-generation''
          (Merge_and_unload
             (AutoPeftModelForCausalLM_from_pretrained
                (output_dir (args (lora_trainer l lora_assigned)))
                [(''torch_dtype'', PyName ''torch.float16''), (''low_cpu_mem_usage'', PyBool True)]))
          (AutoTokenizer_from_pretrained ''SmolLM2-FT-MyDataset'') (device l)
    \<and> hd prompts =
        ''What is the capital of Germany? Explain why thats the case and if it was different in the past?''
    \<and> Print (FString (str (ESC # ''[92m'') @
            strip (drop (length (apply_chat_template l (pipeline_tokenizer (pipe l))
                [[(''role'', str ''user''), (''content'', str (hd prompts))]] False True)) g) @
            str (ESC # ''[0m'')))
        \<in> set (after_training (fst (lora_notebook l)))
    \<and> labelled_print ''Before training:'' (Decoded (chat_tokenizer l) (outputs l))
        (before_training (fst (turtle_notebook l)))
    \<and> filter is_train (fst (turtle_notebook l)) = [Train (turtle_trainer l)]
    \<and> model (turtle_trainer l) = chat_model l
    \<and> labelled_print ''After training:'' (Decoded (chat_tokenizer l) (outputs l))
        (after_training (fst (turtle_notebook l)))"
proof -
  have "chat_model l =
      Setup_chat_format_model
        (To (AutoModelForCausalLM_from_pretrained ''HuggingFaceTB/SmolLM2-135M'') (device l))
        (AutoTokenizer_from_pretrained ''HuggingFaceTB/SmolLM2-135M'')"
    by (simp add: chat_model_def base_model_def base_tokenizer_def model_name_def)
  moreover have "chat_tokenizer l =
      Setup_chat_format_tokenizer
        (To (AutoModelForCausalLM_from_pretrained ''HuggingFaceTB/SmolLM2-135M'') (device l))
        (AutoTokenizer_from_pretrained ''HuggingFaceTB/SmolLM2-135M'')"
    by (simp add: chat_tokenizer_def base_model_def base_tokenizer_def model_name_def)
  moreover have "outputs l =
      Generate (chat_model l) (chat_tokenizer l)
        (apply_chat_template l (chat_tokenizer l)
           [[(''role'', str ''user''), (''content'', str ''Write a haiku about programming'')]]
           False False)
        (device l) 100"
    by (simp add: outputs_def formatted_prompt_def messages_def prompt_def)
  moreover have "labelled_print ''Before training:'' (Decoded (chat_tokenizer l) (outputs l))
        (before_training (fst (lora_notebook l)))"
    by (simp add: lora_notebook_def before_training_lora labelled_print_def)
  moreover have "model (lora_trainer l lora_assigned) = chat_model l"
    by (simp add: lora_trainer_def)
  moreover have "pipe l =
        Pipeline ''text-generation''
          (Merge_and_unload
             (AutoPeftModelForCausalLM_from_pretrained
                (output_dir (args (lora_trainer l lora_assigned)))
                [(''torch_dtype'', PyName ''torch.float16''), (''low_cpu_mem_usage'', PyBool True)]))
          (AutoTokenizer_from_pretrained ''SmolLM2-FT-MyDataset'') (device l)"
    by (simp add: pipe_def merged_model_def lora_peft_model_def lora_trainer_def
        lora_adapter_tokenizer_def lora_finetune_name_def)
  moreover have "hd prompts =
        ''What is the capital of Germany? Explain why thats the case and if it was different in the past?''"
    by (simp add: prompts_def)
  moreover have "labelled_print ''Before training:'' (Decoded (chat_tokenizer l) (outputs l))
        (before_training (fst (turtle_notebook l)))"
    by (simp add: turtle_events before_training_def labelled_print_def)
  moreover have "model (turtle_trainer l) = chat_model l"
    by (simp add: turtle_trainer_def)
  moreover have "labelled_print ''After training:'' (Decoded (chat_tokenizer l) (outputs l))
        (after_training (fst (turtle_notebook l)))"
    by (simp add: turtle_events after_training_def labelled_print_def)
  ultimately show ?thesis
    using response_printed [OF assms] train_once_lora [of l] train_once_turtle [of l]
    by blast
qed

theorem samples_before_and_after_training_witness:
  "call_pipeline example_lib (pipe example_lib)
     (apply_chat_template example_lib (pipeline_tokenizer (pipe example_lib))
        [[(''role'', str ''user''), (''content'', str (hd prompts))]] False True)
     = [[(''generated_text'',
          chatml [[(''role'', str ''user''), (''content'', str (hd prompts))]] True @
          str ('' Code flows'' @ [NL]))]]
   \<and> Print (FString (str (ESC # ''[92m'') @ str ''Code flows'' @ str (ESC # ''[0m'')))
       \<in> set (after_training (fst (lora_notebook example_lib)))
   \<and> outputs example_lib =
       Generate (chat_model example_lib) (chat_tokenizer example_lib)
         (chatml [[(''role'', str ''user''), (''content'', str ''Write a haiku about programming'')]]
            False)
         ''mps'' 100
   \<and> labelled_print ''Before training:'' (Decoded (chat_tokenizer example_lib) (outputs example_lib))
        (before_training (fst (lora_notebook example_lib)))
   \<and> labelled_print ''Before training:'' (Decoded (chat_tokenizer example_lib) (outputs example_lib))
        (before_training (fst (turtle_notebook example_lib)))
   \<and> labelled_print ''After training:'' (Decoded (chat_tokenizer example_lib) (outputs example_lib))
        (after_training (fst (turtle_notebook example_lib)))"
proof -
  let ?fp = "apply_chat_template example_lib (pipeline_tokenizer (pipe example_lib))
        [[(''role'', str ''user''), (''content'', str (hd prompts))]] False True"
  let ?g = "?fp @ str ('' Code flows'' @ [NL])"
  have t: "apply_chat_template example_lib = (\<lambda>t ms tokenize a. chatml ms a)"
    by (simp add: example_lib_def)
  have h: "call_pipeline example_lib (pipe example_lib) ?fp = [(''generated_text'', ?g)] # []"
    by (simp add: example_lib_def)
  have m: "map_of [(''generated_text'', ?g)] ''generated_text'' = Some ?g"
    by simp
  have s: "strip (drop (length ?fp) ?g) = str ''Code flows''"
    by (simp add: strip_def isspace_def str_def NL_def)
  have d: "device example_lib = ''mps''"
    by (simp add: device_def example_lib_def)
  note c = samples_before_and_after_training [OF h m]
  from c have "outputs example_lib =
      Generate (chat_model example_lib) (chat_tokenizer example_lib)
        (apply_chat_template example_lib (chat_tokenizer example_lib)
           [[(''role'', str ''user''), (''content'', str ''Write a haiku about programming'')]]
           False False)
        (device example_lib) 100"
    by blast
  then have "outputs example_lib =
       Generate (chat_model example_lib) (chat_tokenizer example_lib)
         (chatml [[(''role'', str ''user''), (''content'', str ''Write a haiku about programming'')]]
            False)
         ''mps'' 100"
    by (simp only: t d)
  moreover from c have "Print (FString (str (ESC # ''[92m'') @ strip (drop (length ?fp) ?g) @
        str (ESC # ''[0m'')))
      \<in> set (after_training (fst (lora_notebook example_lib)))"
    by blast
  then have "Print (FString (str (ESC # ''[92m'') @ str ''Code flows'' @ str (ESC # ''[0m'')))
      \<in> set (after_training (fst (lora_notebook example_lib)))"
    by (simp only: s)
  moreover from c have
    "labelled_print ''Before training:'' (Decoded (chat_tokenizer example_lib) (outputs example_lib))
        (before_training (fst (lora_notebook example_lib)))"
    "labelled_print ''Before training:'' (Decoded (chat_tokenizer example_lib) (outputs example_lib))
        (before_training (fst (turtle_notebook example_lib)))"
    "labelled_print ''After training:'' (Decoded (chat_tokenizer example_lib) (outputs example_lib))
        (after_training (fst (turtle_notebook example_lib)))"
    by blast+
  moreover have "call_pipeline example_lib (pipe example_lib) ?fp =
      [[(''generated_text'',
          chatml [[(''role'', str ''user''), (''content'', str (hd prompts))]] True @
          str ('' Code flows'' @ [NL]))]]"
    using h by (simp only: t)
  ultimately show ?thesis by blast
qed

section \<open>The trainers and their adapters\<close>

text \<open>
  C1, as the claim states it: every trainer that a notebook creates has a
  \<open>peft_config\<close>. It fails for the SFT notebook, whose \<open>SFTTrainer\<close> call passes
  none.
\<close>

theorem turtle_trainer_without_peft_config:
  "\<not> list_all has_peft_config (created_trainers (fst (turtle_notebook example_lib)))"
  by (simp add: created_trainers_turtle has_peft_config_def turtle_trainer_def)

text \<open>
  C1, amended. The LoRA notebook creates one trainer, before it trains, and that trainer
  has the \<open>LoraConfig\<close> of the notebook as its \<open>peft_config\<close>. The SFT notebook
  creates one trainer, without a \<open>peft_config\<close>.
\<close>

theorem only_lora_trainer_has_peft_config:
  "created_trainers (fst (lora_notebook l)) = [lora_trainer l lora_assigned]
   \<and> peft_config (lora_trainer l lora_assigned) = Some (lora_peft_config lora_assigned)
   \<and> list_ex is_create_trainer (before_training (fst (lora_notebook l)))
   \<and> created_trainers (fst (turtle_notebook l)) = [turtle_trainer l]
   \<and> peft_config (turtle_trainer l) = None"
proof -
  have "list_ex is_create_trainer (before_training (fst (lora_notebook l)))"
    by (simp add: lora_notebook_def before_training_lora)
  moreover have "peft_config (lora_trainer l lora_assigned) = Some (lora_peft_config lora_assigned)"
    by (simp add: lora_trainer_def)
  moreover have "peft_config (turtle_trainer l) = None"
    by (simp add: turtle_trainer_def)
  ultimately show ?thesis
    by (simp add: lora_notebook_def created_trainers_lora created_trainers_turtle)
qed

theorem only_lora_trainer_has_peft_config_witness:
  "list_all has_peft_config (created_trainers (fst (lora_notebook example_lib)))
   \<and> created_trainers (fst (turtle_notebook example_lib)) = [turtle_trainer example_lib]"
  using only_lora_trainer_has_peft_config [of example_lib] by (simp add: has_peft_config_def)

section \<open>Installation of the dependencies\<close>

text \<open>
  C2, as the claim states it: every import of a required dependency comes after an
  installation of it. It fails: the first statement that the SFT notebook runs imports
  \<open>huggingface_hub\<close>, and nothing was installed.
\<close>

theorem imports_without_install:
  "\<not> installed_before_import [] (fst (turtle_notebook example_lib))"
  by (simp add: turtle_events required_dependencies_def)

text \<open>
  C2, amended. No cell of either notebook installs anything (the \<open>pip install\<close> line of
  the first code cell is a comment); both notebooks import \<open>transformers\<close>,
  \<open>datasets\<close>, \<open>trl\<close> and \<open>huggingface_hub\<close>, and the import of
  \<open>huggingface_hub\<close> is the first thing that a run does.
\<close>

theorem no_cell_installs:
  "filter is_pip_install (fst (lora_notebook l)) = []
   \<and> filter is_pip_install (fst (turtle_notebook l)) = []
   \<and> list_all (\<lambda>m. Import m \<in> set (fst (lora_notebook l))) required_dependencies
   \<and> list_all (\<lambda>m. Import m \<in> set (fst (turtle_notebook l))) required_dependencies
   \<and> hd (fst (lora_notebook l)) = Import ''huggingface_hub''
   \<and> hd (fst (turtle_notebook l)) = Import ''huggingface_hub''"
proof -
  have "filter is_pip_install (fst (lora_notebook l)) = []"
    by (simp add: lora_notebook_def lora_filter lora_setup_events cell_shutdown_def)
  moreover have "filter is_pip_install (fst (turtle_notebook l)) = []"
    by (simp add: turtle_events)
  moreover have "list_all (\<lambda>m. Import m \<in> set (fst (lora_notebook l))) required_dependencies"
    by (simp add: lora_notebook_def lora_events lora_setup_events required_dependencies_def)
  moreover have "list_all (\<lambda>m. Import m \<in> set (fst (turtle_notebook l))) required_dependencies"
    by (simp add: turtle_events required_dependencies_def)
  moreover have "hd (fst (lora_notebook l)) = Import ''huggingface_hub''"
    by (simp add: lora_notebook_def lora_events lora_setup_events)
  moreover have "hd (fst (turtle_notebook l)) = Import ''huggingface_hub''"
    by (simp add: turtle_events)
  ultimately show ?thesis by blast
qed

theorem no_cell_installs_witness:
  "filter is_pip_install (fst (lora_notebook example_lib)) = []
   \<and> filter is_pip_install (fst (turtle_notebook example_lib)) = []
   \<and> Import ''trl'' \<in> set (fst (turtle_notebook example_lib))"
  using no_cell_installs [of example_lib] by (simp add: required_dependencies_def)

section \<open>The merge of the adapter\<close>

text \<open>
  C4. The LoRA notebook calls \<open>save_pretrained\<close> once, after training: on the result of
  \<open>merge_and_unload()\<close> of the adapter model that it loaded from the output directory
  of the trainer's arguments, into that same directory, with
  \<open>safe_serialization=True\<close>. What is saved is the merged model, not the adapter model.
\<close>

theorem merged_model_saved_to_output_dir:
  "filter is_save_pretrained (fst (lora_notebook l)) =
     [Save_pretrained
        (Merge_and_unload
           (AutoPeftModelForCausalLM_from_pretrained (output_dir (args (lora_trainer l lora_assigned)))
              [(''torch_dtype'', PyName ''torch.float16''), (''low_cpu_mem_usage'', PyBool True)]))
        (output_dir (args (lora_trainer l lora_assigned))) True ''2GB'']
   \<and> list_ex is_save_pretrained (after_training (fst (lora_notebook l)))
   \<and> filter is_train (fst (lora_notebook l)) = [Train (lora_trainer l lora_assigned)]"
proof -
  have "filter is_save_pretrained (fst (lora_notebook l)) =
      [Save_pretrained merged_model (output_dir lora_args) True ''2GB'']"
    by (simp add: lora_notebook_def lora_filter lora_setup_events cell_shutdown_def)
  moreover have "list_ex is_save_pretrained (after_training (fst (lora_notebook l)))"
    by (simp add: lora_notebook_def after_training_lora)
  ultimately show ?thesis
    by (simp add: train_once_lora merged_model_def lora_peft_model_def lora_trainer_def)
qed

theorem merged_model_saved_to_output_dir_witness:
  "Save_pretrained
     (Merge_and_unload
        (AutoPeftModelForCausalLM_from_pretrained ''SmolLM2-FT-MyDataset''
           [(''torch_dtype'', PyName ''torch.float16''), (''low_cpu_mem_usage'', PyBool True)]))
     ''SmolLM2-FT-MyDataset'' True ''2GB''
   \<in> set (after_training (fst (lora_notebook example_lib)))"
proof -
  have "set (filter is_save_pretrained (after_training (fst (lora_notebook example_lib))))
      \<subseteq> set (after_training (fst (lora_notebook example_lib)))"
    by simp
  moreover have "filter is_save_pretrained (after_training (fst (lora_notebook example_lib)))
      = filter is_save_pretrained (fst (lora_notebook example_lib))"
    by (simp add: lora_notebook_def after_training_lora lora_filter lora_setup_events
        filter_prints [OF inference_prints])
  ultimately show ?thesis
    using merged_model_saved_to_output_dir [of example_lib]
    by (simp add: lora_trainer_def lora_args_def lora_finetune_name_def)
qed

section \<open>Effects outside the run\<close>




section \<open>The model and the dataset\<close>

text \<open>
  C7. Each notebook trains once, with its one trainer. The two trainers have the same
  model, \<open>HuggingFaceTB/SmolLM2-135M\<close> loaded from the hub, moved to the device and set
  up for the chat format, and the same training data, the \<open>train\<close> split of
  \<open>HuggingFaceTB/smoltalk\<close> with the configuration \<open>everyday-conversations\<close>.
\<close>

theorem same_model_and_dataset:
  "filter is_train (fst (lora_notebook l)) = [Train (lora_trainer l lora_assigned)]
   \<and> filter is_train (fst (turtle_notebook l)) = [Train (turtle_trainer l)]
   \<and> model (lora_trainer l lora_assigned) = model (turtle_trainer l)
   \<and> model (turtle_trainer l) =
       Setup_chat_format_model
         (To (AutoModelForCausalLM_from_pretrained ''HuggingFaceTB/SmolLM2-135M'') (device l))
         (AutoTokenizer_from_pretrained ''HuggingFaceTB/SmolLM2-135M'')
   \<and> train_dataset (lora_trainer l lora_assigned) = train_dataset (turtle_trainer l)
   \<and> train_dataset (turtle_trainer l) =
       Split (Load_dataset ''HuggingFaceTB/smoltalk'' ''everyday-conversations'') ''train''"
  by (simp add: train_once_lora train_once_turtle
      lora_trainer_def turtle_trainer_def chat_model_def base_model_def
      base_tokenizer_def model_name_def lora_dataset_def ds_def)

theorem same_model_and_dataset_witness:
  "model (lora_trainer example_lib lora_assigned) =
     Setup_chat_format_model
       (To (AutoModelForCausalLM_from_pretrained ''HuggingFaceTB/SmolLM2-135M'') ''mps'')
       (AutoTokenizer_from_pretrained ''HuggingFaceTB/SmolLM2-135M'')
   \<and> train_dataset (lora_trainer example_lib lora_assigned) =
       Split (Load_dataset ''HuggingFaceTB/smoltalk'' ''everyday-conversations'') ''train''"
  using same_model_and_dataset [of example_lib] by (simp add: device_def example_lib_def)

section \<open>The hyperparameters of the adapter\<close>

text \<open>
  C8. Whatever values the cell assigns to \<open>rank_dimension\<close>, \<open>lora_alpha\<close> and
  \<open>lora_dropout\<close> (it assigns 6, 8 and 0.05), the \<open>LoraConfig\<close> has the rank 16, the
  alpha 32 and the dropout 0.1 of the dictionary given to \<open>wandb.init\<close>, the trainer has
  that \<open>LoraConfig\<close>, and the whole run is the same.
\<close>

theorem lora_config_from_wandb_config:
  "lora_peft_config v =
     \<lparr>r = 16, lora_alpha = 32, lora_dropout = 1 / 10, bias = ''none'',
      target_modules = ''all-linear'', task_type = ''CAUSAL_LM''\<rparr>
   \<and> lora_peft_config v = lora_peft_config lora_assigned
   \<and> peft_config (lora_trainer l v) = Some (lora_peft_config lora_assigned)
   \<and> lora_notebook_with l v = lora_notebook l
   \<and> lora_assigned = \<lparr>var_rank_dimension = 6, var_lora_alpha = 8, var_lora_dropout = 5 / 100\<rparr>
   \<and> Wandb_init ''smoltalk-lora-tuning''
        \<lparr>rank_dimension = 16, wandb_config.lora_alpha = 32, wandb_config.lora_dropout = 1 / 10,
         learning_rate = 2 / 10000, num_train_epochs = 3\<rparr> ''offline''
       \<in> set (fst (lora_notebook l))"
proof -
  have t: "lora_trainer l v = lora_trainer l lora_assigned" for v
    by (simp add: lora_trainer_def lora_peft_config_def)
  have "lora_notebook_with l v = lora_notebook l"
    by (simp add: lora_notebook_def lora_notebook_with_def lora_cell_trainer_def
        lora_cell_train_def t [of v])
  moreover have "Wandb_init ''smoltalk-lora-tuning''
        \<lparr>rank_dimension = 16, wandb_config.lora_alpha = 32, wandb_config.lora_dropout = 1 / 10,
         learning_rate = 2 / 10000, num_train_epochs = 3\<rparr> ''offline''
       \<in> set (fst (lora_notebook l))"
    by (simp add: lora_notebook_def lora_events lora_setup_events lora_wandb_config_def)
  ultimately show ?thesis
    by (simp add: lora_peft_config_def lora_wandb_config_def lora_trainer_def lora_assigned_def)
qed

theorem lora_config_from_wandb_config_witness:
  "r (lora_peft_config \<lparr>var_rank_dimension = 64, var_lora_alpha = 128, var_lora_dropout = 1 / 2\<rparr>) = 16
   \<and> lora_notebook_with example_lib
        \<lparr>var_rank_dimension = 64, var_lora_alpha = 128, var_lora_dropout = 1 / 2\<rparr>
       = lora_notebook example_lib"
  using lora_config_from_wandb_config
    [of "\<lparr>var_rank_dimension = 64, var_lora_alpha = 128, var_lora_dropout = 1 / 2\<rparr>" example_lib]
  by simp

section \<open>The response of \<open>test_inference\<close>\<close>

text \<open>
  C10. When the pipeline returns at least one dictionary and the first one has a
  \<open>generated_text\<close>, \<open>test_inference\<close> returns that text without its first
  \<open>len(prompt)\<close> characters, \<open>prompt\<close> being the prompt in the chat template, and
  stripped of white space at both ends. So when the generated text is the formatted
  prompt followed by a continuation, the response is the stripped continuation: the
  prompt at the start of the generated text is not part of it.
\<close>

theorem test_inference_strips_prompt:
  assumes "call_pipeline l (pipe l)
             (apply_chat_template l (pipeline_tokenizer (pipe l))
                [[(''role'', str ''user''), (''content'', p)]] False True) = out # others"
    and "map_of out ''generated_text'' = Some g"
  shows "test_inference l p =
           Inr (strip (drop (length (apply_chat_template l (pipeline_tokenizer (pipe l))
                [[(''role'', str ''user''), (''content'', p)]] False True)) g))
    \<and> (\<forall>rest. g = apply_chat_template l (pipeline_tokenizer (pipe l))
                [[(''role'', str ''user''), (''content'', p)]] False True @ rest
          \<longrightarrow> test_inference l p = Inr (strip rest))"
  using assms by (simp add: test_inference_def Let_def)

theorem test_inference_strips_prompt_witness:
  "call_pipeline example_lib (pipe example_lib)
     (apply_chat_template example_lib (pipeline_tokenizer (pipe example_lib))
        [[(''role'', str ''user''), (''content'', str ''Write a haiku'')]] False True)
     = [[(''generated_text'',
          chatml [[(''role'', str ''user''), (''content'', str ''Write a haiku'')]] True @
          str ('' Code flows'' @ [NL]))]]
   \<and> test_inference example_lib (str ''Write a haiku'') = Inr (str ''Code flows'')"
  using test_inference_strips_prompt [of example_lib "str ''Write a haiku''"
      "[(''generated_text'', chatml [[(''role'', str ''user''), (''content'', str ''Write a haiku'')]] True @ str ('' Code flows'' @ [NL]))]" "[]"
      "chatml [[(''role'', str ''user''), (''content'', str ''Write a haiku'')]] True @ str ('' Code flows'' @ [NL])"]
  by (simp add: example_lib_def strip_def isspace_def str_def NL_def)

end
